theory Spec2Isabelle
  imports Main "HOL-Library.Word"
begin

section \<open>Strings of the host language\<close>

text \<open>
  A JavaScript string is a sequence of 16-bit code units. Literals of the source are
  written through \<open>lit\<close>, which maps every character of an Isabelle string to its code
  unit.
\<close>

type_synonym js_string = "16 word list"

definition lit :: "string \<Rightarrow> js_string" where
  "lit cs = map of_char cs"

text \<open>
  \<open>String.prototype.trim\<close> removes, at both ends, the code units that ECMAScript calls
  WhiteSpace (TAB, VT, FF, ZWNBSP and the Unicode space separators) or LineTerminator
  (LF, CR, LS, PS). All of them are single code units.
\<close>

definition is_white_space :: "16 word \<Rightarrow> bool" where
  "is_white_space c \<longleftrightarrow>
     c = 0x0009 \<or> c = 0x000A \<or> c = 0x000B \<or> c = 0x000C \<or> c = 0x000D \<or>
     c = 0x0020 \<or> c = 0x00A0 \<or> c = 0x1680 \<or>
     (0x2000 \<le> c \<and> c \<le> 0x200A) \<or>
     c = 0x2028 \<or> c = 0x2029 \<or> c = 0x202F \<or> c = 0x205F \<or>
     c = 0x3000 \<or> c = 0xFEFF"

definition trim :: "js_string \<Rightarrow> js_string" where
  "trim s = rev (dropWhile is_white_space (rev (dropWhile is_white_space s)))"

text \<open>
  \<open>a || b\<close> on strings: the empty string is the only falsy string, so the result is
  \<open>b\<close> exactly when \<open>a\<close> is empty.
\<close>

definition or_else :: "js_string \<Rightarrow> js_string \<Rightarrow> js_string" where
  "or_else a b = (if a = [] then b else a)"

text \<open>
  The decimal rendering of a non-negative integer, which is what a template literal
  \<open>${res.status}\<close> produces for an HTTP status.
\<close>

definition digit :: "nat \<Rightarrow> 16 word" where
  "digit d = of_nat (48 + d)"

fun digits :: "nat \<Rightarrow> js_string" where
  "digits n = (if n < 10 then [digit n] else digits (n div 10) @ [digit (n mod 10)])"

declare digits.simps [simp del]

text \<open>Reading a decimal rendering back (\<open>Number(s)\<close> on a string of digits).\<close>

definition decimal :: "js_string \<Rightarrow> nat" where
  "decimal ds = foldl (\<lambda>a d. 10 * a + (unat d - 48)) 0 ds"

section \<open>Data model\<close>

text \<open>
  A task as the backend returns it: \<open>{ id, title, completed }\<close>. An id is a JSON
  number (an integer here) or a JSON string; \<open>===\<close> on ids is equality of the datatype
  (a number is never equal to a string).
\<close>

datatype ident = NumId int | StrId js_string

record task =
  task_id :: ident
  title :: js_string
  completed :: bool

text \<open>The component state: one field per \<open>useState\<close> cell of \<open>App\<close>.\<close>

record app_state =
  tasks :: "task list"
  newTitle :: js_string
  loading :: bool
  busyId :: "ident option"
  error :: "js_string option"
  filter_mode :: js_string
  editingId :: "ident option"
  editingTitle :: js_string

section \<open>The network\<close>

text \<open>
  An \<open>Error\<close> object is its message. A response is its status and the outcome of
  \<open>res.json()\<close>, which rejects when the body is not JSON; the parameter \<open>'b\<close> is the
  type of a parsed body. The promise returned by \<open>fetch\<close> either rejects (no response
  arrived) or resolves with a response.
\<close>

datatype js_error = Error (message: js_string)

record 'b response =
  status :: nat
  json :: "js_error + 'b"

datatype 'b fetch_outcome = Rejects js_error | Resolves "'b response"

text \<open>\<open>res.ok\<close>: the status is in the range 200 to 299.\<close>

definition ok :: "'b response \<Rightarrow> bool" where
  "ok res \<longleftrightarrow> 200 \<le> status res \<and> status res \<le> 299"

text \<open>
  The body of a PUT: \<open>{ title?, completed? }\<close>. The four calls of \<open>fetch\<close> in the
  source, by method, path and payload:
  \<^item> \<open>GET_tasks\<close> is \<open>fetch(`${API_BASE}/tasks`, { headers })\<close>;
  \<^item> \<open>POST_tasks t\<close> is \<open>fetch(`${API_BASE}/tasks`, { method: 'POST', body: JSON.stringify({ title: t }) })\<close>;
  \<^item> \<open>PUT_task i u\<close> is \<open>fetch(`${API_BASE}/tasks/${i}`, { method: 'PUT', body: JSON.stringify(u) })\<close>;
  \<^item> \<open>DELETE_task i\<close> is \<open>fetch(`${API_BASE}/tasks/${i}`, { method: 'DELETE' })\<close>.
\<close>

record updates =
  upd_title :: "js_string option"
  upd_completed :: "bool option"

datatype request =
    GET_tasks
  | POST_tasks js_string
  | PUT_task ident updates
  | DELETE_task ident

text \<open>
  The world outside the component: the requests sent so far, in order, and how the
  backend answers a request. \<open>fetch\<close> appends the request and returns the answer.
\<close>

record 'b network =
  sent :: "request list"
  respond :: "request \<Rightarrow> 'b fetch_outcome"

definition fetch :: "request \<Rightarrow> 'b network \<Rightarrow> 'b fetch_outcome \<times> 'b network" where
  "fetch req net = (respond net req, net\<lparr>sent := sent net @ [req]\<rparr>)"

section \<open>API client\<close>

definition fetchTasks :: "task list network \<Rightarrow> (js_error + task list) \<times> task list network" where
  "fetchTasks net =
     (case fetch GET_tasks net of
        (Rejects e, net') \<Rightarrow> (Inl e, net')
      | (Resolves res, net') \<Rightarrow>
          (if \<not> ok res then Inl (Error (lit ''Failed to fetch tasks: '' @ digits (status res)))
           else json res, net'))"

definition createTask :: "js_string \<Rightarrow> task network \<Rightarrow> (js_error + task) \<times> task network" where
  "createTask ttl net =
     (case fetch (POST_tasks ttl) net of
        (Rejects e, net') \<Rightarrow> (Inl e, net')
      | (Resolves res, net') \<Rightarrow>
          (if \<not> ok res then Inl (Error (lit ''Failed to create task: '' @ digits (status res)))
           else json res, net'))"

definition updateTask :: "ident \<Rightarrow> updates \<Rightarrow> task network \<Rightarrow> (js_error + task) \<times> task network" where
  "updateTask i upd net =
     (case fetch (PUT_task i upd) net of
        (Rejects e, net') \<Rightarrow> (Inl e, net')
      | (Resolves res, net') \<Rightarrow>
          (if \<not> ok res then Inl (Error (lit ''Failed to update task: '' @ digits (status res)))
           else json res, net'))"

definition deleteTask :: "ident \<Rightarrow> 'b network \<Rightarrow> (js_error + bool) \<times> 'b network" where
  "deleteTask i net =
     (case fetch (DELETE_task i) net of
        (Rejects e, net') \<Rightarrow> (Inl e, net')
      | (Resolves res, net') \<Rightarrow>
          (if \<not> ok res then Inl (Error (lit ''Failed to delete task: '' @ digits (status res)))
           else Inr True, net'))"

section \<open>View controller\<close>

text \<open>
  A handler runs from the event to the end of its \<open>finally\<close> block; the \<open>await\<close> is
  answered by the network. State setters are applied in the order of the source;
  \<open>setTasks(prev => ...)\<close> reads the collection at the time it is applied.
\<close>

definition visibleTasks :: "task list \<Rightarrow> js_string \<Rightarrow> task list" where
  "visibleTasks ts f =
     (if f = lit ''active'' then filter (\<lambda>t. \<not> completed t) ts
      else if f = lit ''completed'' then filter (\<lambda>t. completed t) ts
      else ts)"

definition handleAdd :: "app_state \<Rightarrow> task network \<Rightarrow> app_state \<times> task network" where
  "handleAdd s net =
     (let ttl = trim (newTitle s) in
      if ttl = [] then (s, net)
      else
        let s1 = s\<lparr>error := None\<rparr>;
            s2 = s1\<lparr>loading := True\<rparr>;
            (r, net') = createTask ttl net;
            s3 = (case r of
                    Inr created \<Rightarrow> (s2\<lparr>tasks := created # tasks s2\<rparr>)\<lparr>newTitle := []\<rparr>
                  | Inl err \<Rightarrow> s2\<lparr>error := Some (or_else (message err) (lit ''Failed to add task''))\<rparr>)
        in (s3\<lparr>loading := False\<rparr>, net'))"

definition handleToggle :: "task \<Rightarrow> app_state \<Rightarrow> task network \<Rightarrow> app_state \<times> task network" where
  "handleToggle tk s net =
     (let s1 = s\<lparr>busyId := Some (task_id tk)\<rparr>;
          s2 = s1\<lparr>error := None\<rparr>;
          (r, net') = updateTask (task_id tk)
                        \<lparr>upd_title = None, upd_completed = Some (\<not> completed tk)\<rparr> net;
          s3 = (case r of
                  Inr updated \<Rightarrow>
                    s2\<lparr>tasks := map (\<lambda>t. if task_id t = task_id tk then updated else t) (tasks s2)\<rparr>
                | Inl err \<Rightarrow> s2\<lparr>error := Some (or_else (message err) (lit ''Failed to toggle task''))\<rparr>)
      in (s3\<lparr>busyId := None\<rparr>, net'))"

definition handleDelete :: "task \<Rightarrow> app_state \<Rightarrow> 'b network \<Rightarrow> app_state \<times> 'b network" where
  "handleDelete tk s net =
     (let s1 = s\<lparr>busyId := Some (task_id tk)\<rparr>;
          s2 = s1\<lparr>error := None\<rparr>;
          (r, net') = deleteTask (task_id tk) net;
          s3 = (case r of
                  Inr _ \<Rightarrow> s2\<lparr>tasks := filter (\<lambda>t. task_id t \<noteq> task_id tk) (tasks s2)\<rparr>
                | Inl err \<Rightarrow> s2\<lparr>error := Some (or_else (message err) (lit ''Failed to delete task''))\<rparr>)
      in (s3\<lparr>busyId := None\<rparr>, net'))"

definition startEdit :: "task \<Rightarrow> app_state \<Rightarrow> app_state" where
  "startEdit tk s = (s\<lparr>editingId := Some (task_id tk)\<rparr>)\<lparr>editingTitle := title tk\<rparr>"

definition cancelEdit :: "app_state \<Rightarrow> app_state" where
  "cancelEdit s = (s\<lparr>editingId := None\<rparr>)\<lparr>editingTitle := []\<rparr>"

definition saveEdit :: "task \<Rightarrow> app_state \<Rightarrow> task network \<Rightarrow> app_state \<times> task network" where
  "saveEdit tk s net =
     (let ttl = trim (editingTitle s) in
      if ttl = [] \<or> ttl = title tk then (cancelEdit s, net)
      else
        let s1 = s\<lparr>busyId := Some (task_id tk)\<rparr>;
            s2 = s1\<lparr>error := None\<rparr>;
            (r, net') = updateTask (task_id tk) \<lparr>upd_title = Some ttl, upd_completed = None\<rparr> net;
            s3 = (case r of
                    Inr updated \<Rightarrow>
                      cancelEdit
                        (s2\<lparr>tasks := map (\<lambda>t. if task_id t = task_id tk then updated else t) (tasks s2)\<rparr>)
                  | Inl err \<Rightarrow> s2\<lparr>error := Some (or_else (message err) (lit ''Failed to update task''))\<rparr>)
        in (s3\<lparr>busyId := None\<rparr>, net'))"

text \<open>
  What the rendering reads: a row's controls are disabled when \<open>busyId === task.id\<close>,
  and the banner is shown when \<open>error\<close> is truthy.
\<close>

definition busy :: "app_state \<Rightarrow> task \<Rightarrow> bool" where
  "busy s tk \<longleftrightarrow> busyId s = Some (task_id tk)"

definition error_shown :: "app_state \<Rightarrow> bool" where
  "error_shown s \<longleftrightarrow> (case error s of None \<Rightarrow> False | Some m \<Rightarrow> m \<noteq> [])"

section \<open>Concrete scenarios\<close>

text \<open>
  The state \<open>App\<close> starts in (the arguments of its \<open>useState\<close> calls), a backend that
  gives one fixed answer to every request, and the collection of the scenario
  \<open>[{id: 1, title: "A", completed: false}]\<close>.
\<close>

definition initial_state :: app_state where
  "initial_state =
     \<lparr>tasks = [], newTitle = [], loading = True, busyId = None, error = None,
      filter_mode = lit ''all'', editingId = None, editingTitle = []\<rparr>"

definition backend :: "'b fetch_outcome \<Rightarrow> 'b network" where
  "backend out = \<lparr>sent = [], respond = (\<lambda>req. out)\<rparr>"

definition http :: "nat \<Rightarrow> js_error + 'b \<Rightarrow> 'b fetch_outcome" where
  "http st body = Resolves \<lparr>status = st, json = body\<rparr>"

definition task_A :: task where
  "task_A = \<lparr>task_id = NumId 1, title = lit ''A'', completed = False\<rparr>"

definition task_B :: task where
  "task_B = \<lparr>task_id = NumId 2, title = lit ''B'', completed = True\<rparr>"

definition state_A :: app_state where
  "state_A = initial_state\<lparr>tasks := [task_A], loading := False\<rparr>"

section \<open>Basic facts\<close>

text \<open>What each operation of the API client returns and sends, and what each handler leaves.\<close>

lemma all_dropWhile: "(\<forall>x \<in> set (dropWhile P s). P x) \<longleftrightarrow> (\<forall>x \<in> set s. P x)"
  by (induction s) auto

lemma trim_empty_iff: "trim s = [] \<longleftrightarrow> (\<forall>c \<in> set s. is_white_space c)"
  by (simp add: trim_def all_dropWhile)

lemma fetchTasks_result:
  "fst (fetchTasks net) =
     (case respond net GET_tasks of
        Rejects e \<Rightarrow> Inl e
      | Resolves res \<Rightarrow>
          if ok res then json res
          else Inl (Error (lit ''Failed to fetch tasks: '' @ digits (status res))))"
  by (simp add: fetchTasks_def fetch_def split: fetch_outcome.splits)

lemma createTask_result:
  "fst (createTask ttl net) =
     (case respond net (POST_tasks ttl) of
        Rejects e \<Rightarrow> Inl e
      | Resolves res \<Rightarrow>
          if ok res then json res
          else Inl (Error (lit ''Failed to create task: '' @ digits (status res))))"
  by (simp add: createTask_def fetch_def split: fetch_outcome.splits)

lemma updateTask_result:
  "fst (updateTask i upd net) =
     (case respond net (PUT_task i upd) of
        Rejects e \<Rightarrow> Inl e
      | Resolves res \<Rightarrow>
          if ok res then json res
          else Inl (Error (lit ''Failed to update task: '' @ digits (status res))))"
  by (simp add: updateTask_def fetch_def split: fetch_outcome.splits)

lemma deleteTask_result:
  "fst (deleteTask i net) =
     (case respond net (DELETE_task i) of
        Rejects e \<Rightarrow> Inl e
      | Resolves res \<Rightarrow>
          if ok res then Inr True
          else Inl (Error (lit ''Failed to delete task: '' @ digits (status res))))"
  by (simp add: deleteTask_def fetch_def split: fetch_outcome.splits)

lemma fetchTasks_sent: "snd (fetchTasks net) = net\<lparr>sent := sent net @ [GET_tasks]\<rparr>"
  by (simp add: fetchTasks_def fetch_def split: fetch_outcome.splits)

lemma createTask_sent: "snd (createTask ttl net) = net\<lparr>sent := sent net @ [POST_tasks ttl]\<rparr>"
  by (simp add: createTask_def fetch_def split: fetch_outcome.splits)

lemma updateTask_sent: "snd (updateTask i upd net) = net\<lparr>sent := sent net @ [PUT_task i upd]\<rparr>"
  by (simp add: updateTask_def fetch_def split: fetch_outcome.splits)

lemma deleteTask_sent: "snd (deleteTask i net) = net\<lparr>sent := sent net @ [DELETE_task i]\<rparr>"
  by (simp add: deleteTask_def fetch_def split: fetch_outcome.splits)

lemma handleToggle_state:
  "fst (handleToggle tk s net) =
     (case fst (updateTask (task_id tk) \<lparr>upd_title = None, upd_completed = Some (\<not> completed tk)\<rparr> net) of
        Inr updated \<Rightarrow>
          s\<lparr>tasks := map (\<lambda>t. if task_id t = task_id tk then updated else t) (tasks s),
            busyId := None, error := None\<rparr>
      | Inl err \<Rightarrow>
          s\<lparr>busyId := None, error := Some (or_else (message err) (lit ''Failed to toggle task''))\<rparr>)"
  by (simp add: handleToggle_def Let_def split: prod.splits sum.splits)

lemma handleToggle_net:
  "snd (handleToggle tk s net) =
     snd (updateTask (task_id tk) \<lparr>upd_title = None, upd_completed = Some (\<not> completed tk)\<rparr> net)"
  by (simp add: handleToggle_def Let_def split: prod.splits)

lemma handleDelete_state:
  "fst (handleDelete tk s net) =
     (case fst (deleteTask (task_id tk) net) of
        Inr b \<Rightarrow>
          s\<lparr>tasks := filter (\<lambda>t. task_id t \<noteq> task_id tk) (tasks s), busyId := None, error := None\<rparr>
      | Inl err \<Rightarrow>
          s\<lparr>busyId := None, error := Some (or_else (message err) (lit ''Failed to delete task''))\<rparr>)"
  by (simp add: handleDelete_def Let_def split: prod.splits sum.splits)

lemma handleDelete_net: "snd (handleDelete tk s net) = snd (deleteTask (task_id tk) net)"
  by (simp add: handleDelete_def Let_def split: prod.splits)

lemma handleAdd_blank: "trim (newTitle s) = [] \<Longrightarrow> handleAdd s net = (s, net)"
  by (simp add: handleAdd_def)

lemma handleAdd_state:
  "trim (newTitle s) \<noteq> [] \<Longrightarrow>
   fst (handleAdd s net) =
     (case fst (createTask (trim (newTitle s)) net) of
        Inr created \<Rightarrow> s\<lparr>tasks := created # tasks s, newTitle := [], loading := False, error := None\<rparr>
      | Inl err \<Rightarrow>
          s\<lparr>loading := False, error := Some (or_else (message err) (lit ''Failed to add task''))\<rparr>)"
  by (simp add: handleAdd_def Let_def split: prod.splits sum.splits)

lemma handleAdd_net:
  "trim (newTitle s) \<noteq> [] \<Longrightarrow> snd (handleAdd s net) = snd (createTask (trim (newTitle s)) net)"
  by (simp add: handleAdd_def Let_def split: prod.splits)

lemma saveEdit_cancel:
  "trim (editingTitle s) = [] \<or> trim (editingTitle s) = title tk \<Longrightarrow>
   saveEdit tk s net = (cancelEdit s, net)"
  by (auto simp add: saveEdit_def Let_def)

lemma saveEdit_state:
  "trim (editingTitle s) \<noteq> [] \<Longrightarrow> trim (editingTitle s) \<noteq> title tk \<Longrightarrow>
   fst (saveEdit tk s net) =
     (case fst (updateTask (task_id tk) \<lparr>upd_title = Some (trim (editingTitle s)), upd_completed = None\<rparr> net) of
        Inr updated \<Rightarrow>
          s\<lparr>tasks := map (\<lambda>t. if task_id t = task_id tk then updated else t) (tasks s),
            busyId := None, error := None, editingId := None, editingTitle := []\<rparr>
      | Inl err \<Rightarrow>
          s\<lparr>busyId := None, error := Some (or_else (message err) (lit ''Failed to update task''))\<rparr>)"
  by (simp add: saveEdit_def cancelEdit_def Let_def split: prod.splits sum.splits)

lemma saveEdit_net:
  "trim (editingTitle s) \<noteq> [] \<Longrightarrow> trim (editingTitle s) \<noteq> title tk \<Longrightarrow>
   snd (saveEdit tk s net) =
     snd (updateTask (task_id tk) \<lparr>upd_title = Some (trim (editingTitle s)), upd_completed = None\<rparr> net)"
  by (simp add: saveEdit_def Let_def split: prod.splits)

lemma error_shown_or_else: "b \<noteq> [] \<Longrightarrow> error_shown (s\<lparr>error := Some (or_else a b)\<rparr>)"
  by (simp add: error_shown_def or_else_def)

lemma lit_nonempty: "lit (c # cs) \<noteq> []"
  by (simp add: lit_def)

lemmas ex_defs = initial_state_def backend_def http_def task_A_def task_B_def state_A_def

section \<open>Toggle\<close>

text \<open>
  C1. For every task of the collection, after a successful toggle the collection holds
  the record the server returned at every position whose id is the toggled task's id,
  with the server's \<open>completed\<close> value, and every other position is as before. The
  result is computed from the server's record alone: the negation of the old flag, which
  the client sent, is not used.
\<close>

theorem C1_toggle_holds_server_record:
  assumes "fst (updateTask (task_id tk) \<lparr>upd_title = None, upd_completed = Some (\<not> completed tk)\<rparr> net)
             = Inr updated"
  shows "tasks (fst (handleToggle tk s net))
           = map (\<lambda>t. if task_id t = task_id tk then updated else t) (tasks s)
       \<and> length (tasks (fst (handleToggle tk s net))) = length (tasks s)
       \<and> (\<forall>i < length (tasks s).
             tasks (fst (handleToggle tk s net)) ! i
               = (if task_id (tasks s ! i) = task_id tk then updated else tasks s ! i))
       \<and> (\<forall>i < length (tasks s). task_id (tasks s ! i) = task_id tk \<longrightarrow>
             completed (tasks (fst (handleToggle tk s net)) ! i) = completed updated)
       \<and> (tk \<in> set (tasks s) \<longrightarrow> updated \<in> set (tasks (fst (handleToggle tk s net))))"
proof -
  let ?s' = "fst (handleToggle tk s net)"
  have eq: "tasks ?s' = map (\<lambda>t. if task_id t = task_id tk then updated else t) (tasks s)"
    using assms by (simp add: handleToggle_state)
  have mem: "tk \<in> set (tasks s) \<Longrightarrow> updated \<in> set (tasks ?s')"
    unfolding eq by force
  show ?thesis
    using mem by (simp add: eq)
qed

theorem C1_toggle_witness:
  "fst (updateTask (task_id task_A) \<lparr>upd_title = None, upd_completed = Some (\<not> completed task_A)\<rparr>
          (backend (http 200 (Inr task_A)))) = Inr task_A
   \<and> tasks (fst (handleToggle task_A state_A (backend (http 200 (Inr task_A))))) = [task_A]
   \<and> completed (tasks (fst (handleToggle task_A state_A (backend (http 200 (Inr task_A))))) ! 0)
        \<noteq> (\<not> completed task_A)
   \<and> tasks (fst (handleToggle task_A state_A
               (backend (http 200 (Inr (task_A\<lparr>completed := True\<rparr>))))))
        = [task_A\<lparr>completed := True\<rparr>]"
proof -
  have h1: "fst (updateTask (task_id task_A)
                  \<lparr>upd_title = None, upd_completed = Some (\<not> completed task_A)\<rparr>
                  (backend (http 200 (Inr task_A)))) = Inr task_A"
    by (simp add: updateTask_result ex_defs ok_def)
  have h2: "fst (updateTask (task_id task_A)
                  \<lparr>upd_title = None, upd_completed = Some (\<not> completed task_A)\<rparr>
                  (backend (http 200 (Inr (task_A\<lparr>completed := True\<rparr>)))))
              = Inr (task_A\<lparr>completed := True\<rparr>)"
    by (simp add: updateTask_result ex_defs ok_def)
  show ?thesis
    using h1 C1_toggle_holds_server_record [OF h1, of state_A]
      C1_toggle_holds_server_record [OF h2, of state_A]
    by (simp add: state_A_def initial_state_def task_A_def)
qed

section \<open>Filter\<close>

text \<open>
  C2. The visible list is a function of the collection and the filter mode alone: mode
  \<open>active\<close> gives exactly the tasks that are not completed, mode \<open>completed\<close> exactly the
  completed ones, mode \<open>all\<close> the collection itself. \<open>Array.prototype.filter\<close> builds a
  new array and the memo assigns nothing, so \<open>visibleTasks\<close> returns a list and no state:
  the collection it reads is the collection afterwards.
\<close>

theorem C2_visibleTasks_pure_filter:
  "visibleTasks ts (lit ''active'') = filter (\<lambda>t. \<not> completed t) ts
   \<and> visibleTasks ts (lit ''completed'') = filter (\<lambda>t. completed t) ts
   \<and> visibleTasks ts (lit ''all'') = ts
   \<and> set (visibleTasks ts (lit ''active'')) = {t. t \<in> set ts \<and> completed t = False}
   \<and> set (visibleTasks ts (lit ''completed'')) = {t. t \<in> set ts \<and> completed t = True}"
  by (auto simp add: visibleTasks_def lit_def)

section \<open>Delete\<close>

lemma filter_out_unique:
  assumes "distinct (map f xs)" and "x \<in> f ` set xs"
  shows "\<exists>ys t zs. xs = ys @ t # zs \<and> f t = x \<and> filter (\<lambda>t. f t \<noteq> x) xs = ys @ zs"
proof -
  from assms(2) obtain t where t: "t \<in> set xs" "f t = x" by auto
  then obtain ys zs where split: "xs = ys @ t # zs" by (auto dest: split_list)
  from assms(1) split t(2) have "x \<notin> f ` set ys" "x \<notin> f ` set zs"
    by auto
  then have "\<forall>y \<in> set ys. f y \<noteq> x" "\<forall>z \<in> set zs. f z \<noteq> x"
    by blast+
  then have "filter (\<lambda>t. f t \<noteq> x) xs = ys @ zs"
    using split t(2) by simp
  with split t(2) show ?thesis by blast
qed

text \<open>
  C3 (as amended). On backend success, deleting task id X removes every element whose
  id is X and no other element, keeping the rest in order. When the ids of the
  collection are pairwise distinct and X occurs in it, that is exactly one element.
\<close>

theorem C3_delete_removes_matching:
  assumes "fst (deleteTask (task_id tk) net) = Inr b"
  shows "tasks (fst (handleDelete tk s net)) = filter (\<lambda>t. task_id t \<noteq> task_id tk) (tasks s)
       \<and> (distinct (map task_id (tasks s)) \<and> task_id tk \<in> task_id ` set (tasks s) \<longrightarrow>
            (\<exists>ys t zs. tasks s = ys @ t # zs \<and> task_id t = task_id tk
               \<and> tasks (fst (handleDelete tk s net)) = ys @ zs))"
proof -
  have eq: "tasks (fst (handleDelete tk s net)) = filter (\<lambda>t. task_id t \<noteq> task_id tk) (tasks s)"
    using assms by (simp add: handleDelete_state)
  show ?thesis
    unfolding eq using filter_out_unique [of task_id "tasks s" "task_id tk"] by simp
qed

theorem C3_delete_witness:
  "fst (deleteTask (task_id task_A) (backend (http 204 (Inl (Error [])) :: task fetch_outcome))) = Inr True
   \<and> distinct (map task_id [task_B, task_A])
   \<and> task_id task_A \<in> task_id ` set [task_B, task_A]
   \<and> tasks (fst (handleDelete task_A (state_A\<lparr>tasks := [task_B, task_A]\<rparr>)
               (backend (http 204 (Inl (Error [])) :: task fetch_outcome)))) = [task_B]"
proof -
  have h: "fst (deleteTask (task_id task_A)
                 (backend (http 204 (Inl (Error [])) :: task fetch_outcome))) = Inr True"
    by (simp add: deleteTask_result ex_defs ok_def)
  show ?thesis
    using h C3_delete_removes_matching [OF h, of "state_A\<lparr>tasks := [task_B, task_A]\<rparr>"]
    by (simp add: ex_defs)
qed

text \<open>
  The claim as stated fails on two collections: one in which two elements carry the id
  (both are removed), and one in which no element carries it (none is removed). The
  delete succeeds in both.
\<close>

theorem C3_delete_counterexample:
  "fst (deleteTask (task_id task_A) (backend (http 204 (Inl (Error [])) :: task fetch_outcome))) = Inr True
   \<and> length (tasks (state_A\<lparr>tasks := [task_A, task_A\<lparr>title := lit ''B''\<rparr>]\<rparr>)) = 2
   \<and> tasks (fst (handleDelete task_A (state_A\<lparr>tasks := [task_A, task_A\<lparr>title := lit ''B''\<rparr>]\<rparr>)
               (backend (http 204 (Inl (Error [])) :: task fetch_outcome)))) = []
   \<and> tasks (fst (handleDelete task_A (state_A\<lparr>tasks := [task_B]\<rparr>)
               (backend (http 204 (Inl (Error [])) :: task fetch_outcome)))) = [task_B]"
  by (simp add: handleDelete_state deleteTask_result ex_defs ok_def)

section \<open>API client failures\<close>

text \<open>The status can be read back from its decimal rendering.\<close>

lemma unat_digit:
  assumes "d < 10"
  shows "unat (digit d) = 48 + d"
proof -
  have "unat (of_nat (48 + d) :: 16 word) = (48 + d) mod 2 ^ LENGTH(16)"
    by (rule unat_of_nat)
  also have "\<dots> = 48 + d"
    using assms by simp
  finally show ?thesis
    unfolding digit_def .
qed

lemma decimal_digits: "decimal (digits n) = n"
proof (induction n rule: digits.induct)
  case (1 n)
  show ?case
  proof (cases "n < 10")
    case True
    then show ?thesis
      by (subst digits.simps) (simp add: decimal_def unat_digit)
  next
    case False
    then have "decimal (digits (n div 10)) = n div 10"
      using "1.IH" by simp
    moreover have "unat (digit (n mod 10)) = 48 + n mod 10"
      by (simp add: unat_digit)
    ultimately show ?thesis
      using False by (subst digits.simps) (simp add: decimal_def)
  qed
qed

lemma digits_inject: "digits m = digits n \<Longrightarrow> m = n"
  by (metis decimal_digits)

lemma digits_nonempty: "digits n \<noteq> []"
  by (subst digits.simps) simp


text \<open>
  C4 (as amended). Once a response has arrived, each of the four operations raises, when
  the status is not 2xx, a failure whose message is the operation's own text followed by
  the status in decimal, whatever the body holds; the status can be read back from it,
  and the messages of two different operations are different.
  On a 2xx response \<open>deleteTask\<close> returns \<open>true\<close>, so it raises if and only if the status
  is not 2xx; \<open>fetchTasks\<close>, \<open>createTask\<close> and \<open>updateTask\<close> return the outcome of
  \<open>res.json()\<close>, so they raise if and only if the status is not 2xx or the body does not
  parse. A raised failure is never accompanied by a body.
\<close>

theorem C4_api_failure_contract:
  "(respond netL GET_tasks = Resolves resL \<longrightarrow>
      (\<not> ok resL \<longrightarrow>
         fst (fetchTasks netL) = Inl (Error (lit ''Failed to fetch tasks: '' @ digits (status resL)))
         \<and> decimal (digits (status resL)) = status resL)
      \<and> (ok resL \<longrightarrow> fst (fetchTasks netL) = json resL)
      \<and> (isl (fst (fetchTasks netL)) \<longleftrightarrow> \<not> ok resL \<or> isl (json resL)))
   \<and> (respond netC (POST_tasks ttl) = Resolves resC \<longrightarrow>
      (\<not> ok resC \<longrightarrow>
         fst (createTask ttl netC) = Inl (Error (lit ''Failed to create task: '' @ digits (status resC)))
         \<and> decimal (digits (status resC)) = status resC)
      \<and> (ok resC \<longrightarrow> fst (createTask ttl netC) = json resC)
      \<and> (isl (fst (createTask ttl netC)) \<longleftrightarrow> \<not> ok resC \<or> isl (json resC)))
   \<and> (respond netU (PUT_task i upd) = Resolves resU \<longrightarrow>
      (\<not> ok resU \<longrightarrow>
         fst (updateTask i upd netU) = Inl (Error (lit ''Failed to update task: '' @ digits (status resU)))
         \<and> decimal (digits (status resU)) = status resU)
      \<and> (ok resU \<longrightarrow> fst (updateTask i upd netU) = json resU)
      \<and> (isl (fst (updateTask i upd netU)) \<longleftrightarrow> \<not> ok resU \<or> isl (json resU)))
   \<and> (respond netD (DELETE_task j) = Resolves resD \<longrightarrow>
      (\<not> ok resD \<longrightarrow>
         fst (deleteTask j netD) = Inl (Error (lit ''Failed to delete task: '' @ digits (status resD)))
         \<and> decimal (digits (status resD)) = status resD)
      \<and> (ok resD \<longrightarrow> fst (deleteTask j netD) = Inr True)
      \<and> (isl (fst (deleteTask j netD)) \<longleftrightarrow> \<not> ok resD))
   \<and> distinct [lit ''Failed to fetch tasks: '' @ digits a, lit ''Failed to create task: '' @ digits b,
        lit ''Failed to update task: '' @ digits c, lit ''Failed to delete task: '' @ digits d]"
proof -
  have messages:
    "distinct [lit ''Failed to fetch tasks: '' @ digits a, lit ''Failed to create task: '' @ digits b,
       lit ''Failed to update task: '' @ digits c, lit ''Failed to delete task: '' @ digits d]"
    by (simp add: lit_def)
  then show ?thesis
    by (simp only: fetchTasks_result createTask_result updateTask_result deleteTask_result
        decimal_digits) simp
qed

theorem C4_api_failure_witness:
  "fst (fetchTasks (backend (http 500 (Inr [task_A]))))
     = Inl (Error (lit ''Failed to fetch tasks: 500''))
   \<and> fst (createTask (lit ''A'') (backend (http 404 (Inr task_A))))
     = Inl (Error (lit ''Failed to create task: 404''))
   \<and> fst (updateTask (NumId 1) \<lparr>upd_title = None, upd_completed = Some True\<rparr>
            (backend (http 200 (Inr task_B))))
     = Inr task_B
   \<and> fst (deleteTask (NumId 1) (backend (http 503 (Inr task_A))))
     = Inl (Error (lit ''Failed to delete task: 503''))"
  using C4_api_failure_contract [of "backend (http 500 (Inr [task_A]))"
      "\<lparr>status = 500, json = Inr [task_A]\<rparr>"
      "backend (http 404 (Inr task_A))" "lit ''A''" "\<lparr>status = 404, json = Inr task_A\<rparr>"
      "backend (http 200 (Inr task_B))" "NumId 1" "\<lparr>upd_title = None, upd_completed = Some True\<rparr>"
      "\<lparr>status = 200, json = Inr task_B\<rparr>"
      "backend (http 503 (Inr task_A))" "NumId 1" "\<lparr>status = 503, json = Inr task_A\<rparr>"]
  by (simp add: backend_def http_def ok_def digits.simps digit_def lit_def)

text \<open>
  The claim as stated fails on a 2xx response whose body is not JSON (an empty body, as
  with 204 No Content): the status is successful and the operation raises all the same,
  with the parser's failure, which carries no status.
\<close>

theorem C4_api_failure_counterexample:
  "ok \<lparr>status = 204, json = (Inl (Error (lit ''Unexpected end of JSON input'')) :: js_error + task)\<rparr>
   \<and> fst (updateTask (NumId 1) \<lparr>upd_title = None, upd_completed = Some True\<rparr>
            (backend (http 204 (Inl (Error (lit ''Unexpected end of JSON input''))))))
     = Inl (Error (lit ''Unexpected end of JSON input''))"
  by (simp add: updateTask_result backend_def http_def ok_def)

section \<open>Failed updates\<close>

text \<open>
  C5. When the update request of a toggle or of a title save fails, the task collection
  is what it was, so the visible list and every displayed task are what they were, and
  the error banner holds a non-empty message.
\<close>

theorem C5_failed_update_keeps_tasks:
  "(isl (fst (updateTask (task_id tk)
               \<lparr>upd_title = None, upd_completed = Some (\<not> completed tk)\<rparr> net)) \<longrightarrow>
      tasks (fst (handleToggle tk s net)) = tasks s
      \<and> visibleTasks (tasks (fst (handleToggle tk s net))) (filter_mode (fst (handleToggle tk s net)))
          = visibleTasks (tasks s) (filter_mode s)
      \<and> error_shown (fst (handleToggle tk s net)))
   \<and> (trim (editingTitle s) \<noteq> [] \<and> trim (editingTitle s) \<noteq> title tk
       \<and> isl (fst (updateTask (task_id tk)
                    \<lparr>upd_title = Some (trim (editingTitle s)), upd_completed = None\<rparr> net)) \<longrightarrow>
      tasks (fst (saveEdit tk s net)) = tasks s
      \<and> visibleTasks (tasks (fst (saveEdit tk s net))) (filter_mode (fst (saveEdit tk s net)))
          = visibleTasks (tasks s) (filter_mode s)
      \<and> error_shown (fst (saveEdit tk s net)))"
  by (auto simp add: handleToggle_state saveEdit_state error_shown_or_else lit_nonempty isl_def)

theorem C5_failed_update_witness:
  "isl (fst (updateTask (task_id task_A)
              \<lparr>upd_title = None, upd_completed = Some (\<not> completed task_A)\<rparr>
              (backend (http 500 (Inr (task_A\<lparr>completed := True\<rparr>))))))
   \<and> tasks (fst (handleToggle task_A state_A
               (backend (http 500 (Inr (task_A\<lparr>completed := True\<rparr>)))))) = [task_A]
   \<and> error_shown (fst (handleToggle task_A state_A
               (backend (http 500 (Inr (task_A\<lparr>completed := True\<rparr>))))))
   \<and> trim (editingTitle (state_A\<lparr>editingTitle := lit '' A2 ''\<rparr>)) = lit ''A2''
   \<and> isl (fst (updateTask (task_id task_A) \<lparr>upd_title = Some (lit ''A2''), upd_completed = None\<rparr>
                 (backend (Rejects (Error [])))))
   \<and> tasks (fst (saveEdit task_A (state_A\<lparr>editingTitle := lit '' A2 ''\<rparr>)
               (backend (Rejects (Error []))))) = [task_A]
   \<and> error_shown (fst (saveEdit task_A (state_A\<lparr>editingTitle := lit '' A2 ''\<rparr>)
               (backend (Rejects (Error [])))))"
proof -
  let ?net1 = "backend (http 500 (Inr (task_A\<lparr>completed := True\<rparr>)))"
  let ?net2 = "backend (Rejects (Error [])) :: task network"
  let ?s2 = "state_A\<lparr>editingTitle := lit '' A2 ''\<rparr>"
  have h1: "isl (fst (updateTask (task_id task_A)
                       \<lparr>upd_title = None, upd_completed = Some (\<not> completed task_A)\<rparr> ?net1))"
    by (simp add: updateTask_result backend_def http_def ok_def)
  have t0: "trim (lit '' A2 '') = lit ''A2''"
    by (simp add: trim_def lit_def is_white_space_def)
  then have t: "trim (editingTitle ?s2) = lit ''A2''"
    by simp
  have h2: "trim (editingTitle ?s2) \<noteq> [] \<and> trim (editingTitle ?s2) \<noteq> title task_A
            \<and> isl (fst (updateTask (task_id task_A)
                    \<lparr>upd_title = Some (trim (editingTitle ?s2)), upd_completed = None\<rparr> ?net2))"
    unfolding t by (simp add: updateTask_result backend_def task_A_def lit_def)
  note c1 = C5_failed_update_keeps_tasks [of task_A ?net1 state_A, THEN conjunct1, THEN mp, OF h1]
  note c2 = C5_failed_update_keeps_tasks [of task_A ?net2 ?s2, THEN conjunct2, THEN mp, OF h2]
  have ts: "tasks state_A = [task_A]" "tasks ?s2 = [task_A]"
    by (simp_all add: state_A_def)
  show ?thesis
    using h1 h2 c1 c2 by (simp add: t0 ts)
qed

section \<open>Add\<close>

text \<open>
  C6. When the input buffer is empty or holds only white space, submitting the form
  sends no request and leaves the task collection and every other field of the state as
  it was.
\<close>

theorem C6_blank_add_is_noop:
  "(\<forall>c \<in> set (newTitle s). is_white_space c) \<Longrightarrow>
   handleAdd s net = (s, net)
   \<and> sent (snd (handleAdd s net)) = sent net
   \<and> tasks (fst (handleAdd s net)) = tasks s"
  by (simp add: handleAdd_blank trim_empty_iff)

theorem C6_blank_add_witness:
  "trim (newTitle (state_A\<lparr>newTitle := [0x20, 0x09, 0x3000]\<rparr>)) = []
   \<and> handleAdd (state_A\<lparr>newTitle := [0x20, 0x09, 0x3000]\<rparr>) (backend (http 201 (Inr task_B)))
       = (state_A\<lparr>newTitle := [0x20, 0x09, 0x3000]\<rparr>, backend (http 201 (Inr task_B)))
   \<and> sent (snd (handleAdd (state_A\<lparr>newTitle := [0x20, 0x09, 0x3000]\<rparr>)
                  (backend (http 201 (Inr task_B))))) = []
   \<and> handleAdd initial_state (backend (http 201 (Inr task_B)))
       = (initial_state, backend (http 201 (Inr task_B)))"
proof -
  let ?s = "state_A\<lparr>newTitle := [0x20, 0x09, 0x3000]\<rparr>"
  let ?net = "backend (http 201 (Inr task_B))"
  have h1: "\<forall>c \<in> set (newTitle ?s). is_white_space c"
    by (simp add: is_white_space_def)
  have h2: "\<forall>c \<in> set (newTitle initial_state). is_white_space c"
    by (simp add: initial_state_def)
  have e: "sent ?net = []"
    by (simp add: backend_def)
  show ?thesis
    using h1 C6_blank_add_is_noop [OF h1, of ?net] C6_blank_add_is_noop [OF h2, of ?net]
    by (simp add: e trim_empty_iff)
qed

text \<open>
  C7. When a create request is sent and fails (the backend answers 500, say), the task
  collection is what it was, the error is set to a non-empty message (for a non-2xx
  answer, the create failure with its status), and the input buffer still holds what the
  user typed.
\<close>

theorem C7_failed_create_keeps_input:
  assumes "trim (newTitle s) \<noteq> []"
    and "fst (createTask (trim (newTitle s)) net) = Inl err"
  shows "tasks (fst (handleAdd s net)) = tasks s
       \<and> error (fst (handleAdd s net)) = Some (or_else (message err) (lit ''Failed to add task''))
       \<and> error_shown (fst (handleAdd s net))
       \<and> newTitle (fst (handleAdd s net)) = newTitle s
       \<and> (\<forall>res. respond net (POST_tasks (trim (newTitle s))) = Resolves res \<and> \<not> ok res \<longrightarrow>
            error (fst (handleAdd s net))
              = Some (lit ''Failed to create task: '' @ digits (status res)))"
proof -
  have st: "fst (handleAdd s net)
              = s\<lparr>loading := False, error := Some (or_else (message err) (lit ''Failed to add task''))\<rparr>"
    using assms by (simp add: handleAdd_state)
  have shown: "error_shown (fst (handleAdd s net))"
    unfolding st by (rule error_shown_or_else) (rule lit_nonempty)
  have msg: "error (fst (handleAdd s net)) = Some (lit ''Failed to create task: '' @ digits (status res))"
    if "respond net (POST_tasks (trim (newTitle s))) = Resolves res" "\<not> ok res" for res
  proof -
    from that assms(2) have "err = Error (lit ''Failed to create task: '' @ digits (status res))"
      by (simp add: createTask_result)
    then show ?thesis
      unfolding st by (simp add: or_else_def lit_def)
  qed
  show ?thesis
    using shown msg by (simp add: st)
qed

theorem C7_failed_create_witness:
  "trim (newTitle (state_A\<lparr>newTitle := lit ''buy milk ''\<rparr>)) = lit ''buy milk''
   \<and> fst (createTask (lit ''buy milk'') (backend (http 500 (Inr task_B))))
       = Inl (Error (lit ''Failed to create task: 500''))
   \<and> tasks (fst (handleAdd (state_A\<lparr>newTitle := lit ''buy milk ''\<rparr>)
               (backend (http 500 (Inr task_B))))) = [task_A]
   \<and> error (fst (handleAdd (state_A\<lparr>newTitle := lit ''buy milk ''\<rparr>)
               (backend (http 500 (Inr task_B))))) = Some (lit ''Failed to create task: 500'')
   \<and> newTitle (fst (handleAdd (state_A\<lparr>newTitle := lit ''buy milk ''\<rparr>)
               (backend (http 500 (Inr task_B))))) = lit ''buy milk ''"
proof -
  let ?s = "state_A\<lparr>newTitle := lit ''buy milk ''\<rparr>"
  let ?net = "backend (http 500 (Inr task_B))"
  have t0: "trim (lit ''buy milk '') = lit ''buy milk''"
    by (simp add: trim_def lit_def is_white_space_def)
  have d: "digits 500 = lit ''500''"
    by (simp add: digits.simps digit_def lit_def)
  have h1: "trim (newTitle ?s) \<noteq> []"
    by (simp add: t0) (simp add: lit_def)
  have h2: "fst (createTask (trim (newTitle ?s)) ?net)
              = Inl (Error (lit ''Failed to create task: 500''))"
    by (simp add: t0 createTask_result backend_def http_def ok_def d) (simp add: lit_def)
  have ts: "tasks ?s = [task_A]"
    by (simp add: state_A_def)
  have nonempty: "lit ''Failed to create task: 500'' \<noteq> []"
    by (simp add: lit_def)
  show ?thesis
    using h2 C7_failed_create_keeps_input [OF h1 h2]
    by (simp add: t0 ts or_else_def nonempty)
qed

section \<open>Inline edit\<close>

text \<open>
  C8 (as amended). For a task in edit mode: if the trimmed draft is empty or equal to the
  task's current title, \<open>saveEdit\<close> is \<open>cancelEdit\<close>: it sends no request and clears
  \<open>editingId\<close> and \<open>editingTitle\<close>. Otherwise it sends one update carrying the trimmed
  draft as the title; on success every element with the task's id becomes the server's
  record and edit mode is left; on failure the error is set, the collection is unchanged
  and \<open>editingId\<close> and \<open>editingTitle\<close> are kept.
\<close>

theorem C8_saveEdit_cancel_or_update:
  "(trim (editingTitle s) = [] \<or> trim (editingTitle s) = title tk \<longrightarrow>
      saveEdit tk s net = (cancelEdit s, net)
      \<and> sent (snd (saveEdit tk s net)) = sent net
      \<and> editingId (fst (saveEdit tk s net)) = None
      \<and> editingTitle (fst (saveEdit tk s net)) = []
      \<and> tasks (fst (saveEdit tk s net)) = tasks s)
   \<and> (trim (editingTitle s) \<noteq> [] \<and> trim (editingTitle s) \<noteq> title tk \<longrightarrow>
      sent (snd (saveEdit tk s net))
        = sent net @ [PUT_task (task_id tk)
                        \<lparr>upd_title = Some (trim (editingTitle s)), upd_completed = None\<rparr>]
      \<and> (\<forall>updated.
            fst (updateTask (task_id tk)
                  \<lparr>upd_title = Some (trim (editingTitle s)), upd_completed = None\<rparr> net) = Inr updated \<longrightarrow>
            tasks (fst (saveEdit tk s net))
              = map (\<lambda>t. if task_id t = task_id tk then updated else t) (tasks s)
            \<and> editingId (fst (saveEdit tk s net)) = None
            \<and> editingTitle (fst (saveEdit tk s net)) = [])
      \<and> (\<forall>err.
            fst (updateTask (task_id tk)
                  \<lparr>upd_title = Some (trim (editingTitle s)), upd_completed = None\<rparr> net) = Inl err \<longrightarrow>
            error (fst (saveEdit tk s net)) = Some (or_else (message err) (lit ''Failed to update task''))
            \<and> error_shown (fst (saveEdit tk s net))
            \<and> tasks (fst (saveEdit tk s net)) = tasks s
            \<and> editingId (fst (saveEdit tk s net)) = editingId s
            \<and> editingTitle (fst (saveEdit tk s net)) = editingTitle s))"
proof (intro conjI impI)
  assume c: "trim (editingTitle s) = [] \<or> trim (editingTitle s) = title tk"
  then show "saveEdit tk s net = (cancelEdit s, net)"
    by (rule saveEdit_cancel)
  then show "sent (snd (saveEdit tk s net)) = sent net"
    and "editingId (fst (saveEdit tk s net)) = None"
    and "editingTitle (fst (saveEdit tk s net)) = []"
    and "tasks (fst (saveEdit tk s net)) = tasks s"
    by (simp_all add: cancelEdit_def)
next
  assume c: "trim (editingTitle s) \<noteq> [] \<and> trim (editingTitle s) \<noteq> title tk"
  then show "sent (snd (saveEdit tk s net))
        = sent net @ [PUT_task (task_id tk)
                        \<lparr>upd_title = Some (trim (editingTitle s)), upd_completed = None\<rparr>]"
    by (simp add: saveEdit_net updateTask_sent)
  from c show "\<forall>updated.
            fst (updateTask (task_id tk)
                  \<lparr>upd_title = Some (trim (editingTitle s)), upd_completed = None\<rparr> net) = Inr updated \<longrightarrow>
            tasks (fst (saveEdit tk s net))
              = map (\<lambda>t. if task_id t = task_id tk then updated else t) (tasks s)
            \<and> editingId (fst (saveEdit tk s net)) = None
            \<and> editingTitle (fst (saveEdit tk s net)) = []"
    by (simp add: saveEdit_state)
  from c show "\<forall>err.
            fst (updateTask (task_id tk)
                  \<lparr>upd_title = Some (trim (editingTitle s)), upd_completed = None\<rparr> net) = Inl err \<longrightarrow>
            error (fst (saveEdit tk s net)) = Some (or_else (message err) (lit ''Failed to update task''))
            \<and> error_shown (fst (saveEdit tk s net))
            \<and> tasks (fst (saveEdit tk s net)) = tasks s
            \<and> editingId (fst (saveEdit tk s net)) = editingId s
            \<and> editingTitle (fst (saveEdit tk s net)) = editingTitle s"
    by (simp add: saveEdit_state error_shown_or_else lit_nonempty)
qed

theorem C8_saveEdit_witness:
  "trim (editingTitle (startEdit task_A state_A)) = title task_A
   \<and> saveEdit task_A (startEdit task_A state_A) (backend (http 200 (Inr task_B)))
       = (state_A, backend (http 200 (Inr task_B)))
   \<and> trim (editingTitle ((startEdit task_A state_A)\<lparr>editingTitle := lit '' A2 ''\<rparr>)) = lit ''A2''
   \<and> sent (snd (saveEdit task_A ((startEdit task_A state_A)\<lparr>editingTitle := lit '' A2 ''\<rparr>)
                  (backend (http 200 (Inr (task_A\<lparr>title := lit ''A2''\<rparr>))))))
       = [PUT_task (NumId 1) \<lparr>upd_title = Some (lit ''A2''), upd_completed = None\<rparr>]
   \<and> fst (saveEdit task_A ((startEdit task_A state_A)\<lparr>editingTitle := lit '' A2 ''\<rparr>)
             (backend (http 200 (Inr (task_A\<lparr>title := lit ''A2''\<rparr>)))))
       = state_A\<lparr>tasks := [task_A\<lparr>title := lit ''A2''\<rparr>]\<rparr>
   \<and> fst (saveEdit task_A ((startEdit task_A state_A)\<lparr>editingTitle := lit '' A2 ''\<rparr>)
             (backend (http 500 (Inr (task_A\<lparr>title := lit ''A2''\<rparr>)))))
       = (startEdit task_A state_A)
           \<lparr>editingTitle := lit '' A2 '', error := Some (lit ''Failed to update task: 500'')\<rparr>"
proof -
  let ?s0 = "startEdit task_A state_A"
  let ?s1 = "?s0\<lparr>editingTitle := lit '' A2 ''\<rparr>"
  let ?ok = "backend (http 200 (Inr (task_A\<lparr>title := lit ''A2''\<rparr>)))"
  let ?ko = "backend (http 500 (Inr (task_A\<lparr>title := lit ''A2''\<rparr>)))"
  let ?upd = "\<lparr>upd_title = Some (lit ''A2''), upd_completed = None\<rparr>"
  have tA: "trim (lit ''A'') = lit ''A''"
    by (simp add: trim_def lit_def is_white_space_def)
  have t0: "trim (lit '' A2 '') = lit ''A2''"
    by (simp add: trim_def lit_def is_white_space_def)
  have d: "digits 500 = lit ''500''"
    by (simp add: digits.simps digit_def lit_def)
  have ne: "lit ''A2'' \<noteq> []" "lit ''A2'' \<noteq> lit ''A''"
    by (simp_all add: lit_def)
  have h0: "trim (editingTitle ?s0) = [] \<or> trim (editingTitle ?s0) = title task_A"
    by (simp add: startEdit_def task_A_def tA)
  have h1: "trim (editingTitle ?s1) \<noteq> [] \<and> trim (editingTitle ?s1) \<noteq> title task_A"
    by (simp add: t0 ne task_A_def)
  have r_ok: "fst (updateTask (task_id task_A) ?upd ?ok) = Inr (task_A\<lparr>title := lit ''A2''\<rparr>)"
    by (simp add: updateTask_result backend_def http_def ok_def)
  have r_ko: "fst (updateTask (task_id task_A) ?upd ?ko)
                = Inl (Error (lit ''Failed to update task: 500''))"
    by (simp add: updateTask_result backend_def http_def ok_def d) (simp add: lit_def)
  note cancel = C8_saveEdit_cancel_or_update [of ?s0 task_A "backend (http 200 (Inr task_B))",
      THEN conjunct1, THEN mp, OF h0]
  note upd_ok = C8_saveEdit_cancel_or_update [of ?s1 task_A ?ok, THEN conjunct2, THEN mp, OF h1]
  note upd_ko = C8_saveEdit_cancel_or_update [of ?s1 task_A ?ko, THEN conjunct2, THEN mp, OF h1]
  have c0: "cancelEdit ?s0 = state_A"
    by (simp add: cancelEdit_def startEdit_def state_A_def initial_state_def)
  have s_ok: "fst (saveEdit task_A ?s1 ?ok) = state_A\<lparr>tasks := [task_A\<lparr>title := lit ''A2''\<rparr>]\<rparr>"
    using h1 [unfolded t0] r_ok
    by (simp add: saveEdit_state t0 startEdit_def state_A_def initial_state_def)
  have s_ko: "fst (saveEdit task_A ?s1 ?ko)
                = ?s0\<lparr>editingTitle := lit '' A2 '', error := Some (lit ''Failed to update task: 500'')\<rparr>"
    using h1 [unfolded t0] r_ko
    by (simp add: saveEdit_state t0 startEdit_def state_A_def initial_state_def or_else_def)
       (simp add: lit_def)
  show ?thesis
    using cancel upd_ok upd_ko
    by (simp add: c0 s_ok s_ko t0 tA) (simp add: startEdit_def task_A_def backend_def tA)
qed

text \<open>
  The claim as stated fails on a draft of two spaces, which is neither empty nor equal to
  the title and for which no update is sent, and on a title with a leading space whose
  draft is unchanged and for which an update is sent all the same.
\<close>

theorem C8_saveEdit_counterexample:
  "editingTitle (state_A\<lparr>editingId := Some (NumId 1), editingTitle := lit ''  ''\<rparr>) \<noteq> []
   \<and> editingTitle (state_A\<lparr>editingId := Some (NumId 1), editingTitle := lit ''  ''\<rparr>) \<noteq> title task_A
   \<and> sent (snd (saveEdit task_A (state_A\<lparr>editingId := Some (NumId 1), editingTitle := lit ''  ''\<rparr>)
                  (backend (http 200 (Inr task_A))))) = []
   \<and> editingTitle (startEdit (task_A\<lparr>title := lit '' A''\<rparr>) state_A) = title (task_A\<lparr>title := lit '' A''\<rparr>)
   \<and> sent (snd (saveEdit (task_A\<lparr>title := lit '' A''\<rparr>)
                  (startEdit (task_A\<lparr>title := lit '' A''\<rparr>) state_A)
                  (backend (http 200 (Inr task_A)))))
       = [PUT_task (NumId 1) \<lparr>upd_title = Some (lit ''A''), upd_completed = None\<rparr>]"
proof -
  have t1: "trim (lit ''  '') = []" and t2: "trim (lit '' A'') = lit ''A''"
    by (simp_all add: trim_def lit_def is_white_space_def)
  have ne: "lit ''A'' \<noteq> []" "lit ''A'' \<noteq> lit '' A''" "lit ''  '' \<noteq> []" "lit ''  '' \<noteq> lit ''A''"
    by (simp_all add: lit_def)
  have a: "sent (snd (saveEdit task_A (state_A\<lparr>editingId := Some (NumId 1), editingTitle := lit ''  ''\<rparr>)
                  (backend (http 200 (Inr task_A))))) = []"
    by (simp add: saveEdit_cancel t1 backend_def)
  have b: "sent (snd (saveEdit (task_A\<lparr>title := lit '' A''\<rparr>)
                  (startEdit (task_A\<lparr>title := lit '' A''\<rparr>) state_A)
                  (backend (http 200 (Inr task_A)))))
       = [PUT_task (NumId 1) \<lparr>upd_title = Some (lit ''A''), upd_completed = None\<rparr>]"
    by (simp add: saveEdit_net updateTask_sent startEdit_def t2 ne backend_def task_A_def)
  show ?thesis
    using a b by (simp add: ne startEdit_def task_A_def)
qed

section \<open>The busy slot and the frame of toggle and delete\<close>

text \<open>
  C9 (as amended). \<open>busyId\<close> is one slot, so the tasks that are busy in a state all have
  the same id. Whatever the backend answers and whatever the slot held before, \<open>busyId\<close>
  is none after a toggle, after a delete, and after a save that sent its update. A save
  that takes the cancel branch (the trimmed draft is empty or equal to the title) returns
  before the slot is touched and leaves \<open>busyId\<close> as it found it.
\<close>

theorem C9_busyId_single_and_cleared:
  "(busy s a \<and> busy s b \<longrightarrow> task_id a = task_id b)
   \<and> busyId (fst (handleToggle tk s net)) = None
   \<and> busyId (fst (handleDelete tk s netD)) = None
   \<and> (trim (editingTitle s) \<noteq> [] \<and> trim (editingTitle s) \<noteq> title tk \<longrightarrow>
        busyId (fst (saveEdit tk s net)) = None)
   \<and> (trim (editingTitle s) = [] \<or> trim (editingTitle s) = title tk \<longrightarrow>
        busyId (fst (saveEdit tk s net)) = busyId s)"
proof -
  have single: "busy s a \<and> busy s b \<longrightarrow> task_id a = task_id b"
    by (auto simp add: busy_def)
  have toggle: "busyId (fst (handleToggle tk s net)) = None"
    by (simp add: handleToggle_state split: sum.splits)
  have delete: "busyId (fst (handleDelete tk s netD)) = None"
    by (simp add: handleDelete_state split: sum.splits)
  have sending: "trim (editingTitle s) \<noteq> [] \<and> trim (editingTitle s) \<noteq> title tk \<longrightarrow>
        busyId (fst (saveEdit tk s net)) = None"
    by (simp add: saveEdit_state split: sum.splits)
  have cancelling: "trim (editingTitle s) = [] \<or> trim (editingTitle s) = title tk \<longrightarrow>
        busyId (fst (saveEdit tk s net)) = busyId s"
  proof
    assume "trim (editingTitle s) = [] \<or> trim (editingTitle s) = title tk"
    then have "saveEdit tk s net = (cancelEdit s, net)"
      by (rule saveEdit_cancel)
    then show "busyId (fst (saveEdit tk s net)) = busyId s"
      by (simp add: cancelEdit_def)
  qed
  from single toggle delete sending cancelling show ?thesis
    by (intro conjI)
qed

theorem C9_busyId_witness:
  "busy (state_A\<lparr>busyId := Some (NumId 1)\<rparr>) task_A
   \<and> busy (state_A\<lparr>busyId := Some (NumId 1)\<rparr>) (task_A\<lparr>title := lit ''B''\<rparr>)
   \<and> task_id task_A = task_id (task_A\<lparr>title := lit ''B''\<rparr>)
   \<and> busyId (fst (handleToggle task_A (state_A\<lparr>busyId := Some (NumId 2)\<rparr>)
                (backend (http 500 (Inr task_A))))) = None
   \<and> busyId (fst (handleDelete task_A (state_A\<lparr>busyId := Some (NumId 2)\<rparr>)
                (backend (http 204 (Inr task_A))))) = None
   \<and> trim (editingTitle (state_A\<lparr>busyId := Some (NumId 2), editingTitle := lit '' A2 ''\<rparr>))
       = lit ''A2''
   \<and> sent (snd (saveEdit task_A (state_A\<lparr>busyId := Some (NumId 2), editingTitle := lit '' A2 ''\<rparr>)
                  (backend (http 500 (Inr task_A)))))
       = [PUT_task (NumId 1) \<lparr>upd_title = Some (lit ''A2''), upd_completed = None\<rparr>]
   \<and> busyId (fst (saveEdit task_A (state_A\<lparr>busyId := Some (NumId 2), editingTitle := lit '' A2 ''\<rparr>)
                (backend (http 500 (Inr task_A))))) = None
   \<and> busyId (fst (saveEdit task_A (state_A\<lparr>busyId := Some (NumId 2), editingTitle := lit '' A2 ''\<rparr>)
                (backend (http 200 (Inr (task_A\<lparr>title := lit ''A2''\<rparr>)))))) = None
   \<and> trim (editingTitle (startEdit task_A (state_A\<lparr>busyId := Some (NumId 2)\<rparr>))) = title task_A
   \<and> busyId (fst (saveEdit task_A (startEdit task_A (state_A\<lparr>busyId := Some (NumId 2)\<rparr>))
                (backend (http 200 (Inr task_A))))) = Some (NumId 2)"
proof -
  let ?p = "state_A\<lparr>busyId := Some (NumId 2)\<rparr>"
  let ?s1 = "state_A\<lparr>busyId := Some (NumId 2), editingTitle := lit '' A2 ''\<rparr>"
  let ?s0 = "startEdit task_A ?p"
  let ?ko = "backend (http 500 (Inr task_A))"
  let ?ok = "backend (http 200 (Inr (task_A\<lparr>title := lit ''A2''\<rparr>)))"
  have b: "busy (state_A\<lparr>busyId := Some (NumId 1)\<rparr>) task_A
           \<and> busy (state_A\<lparr>busyId := Some (NumId 1)\<rparr>) (task_A\<lparr>title := lit ''B''\<rparr>)"
    by (simp add: busy_def task_A_def)
  have tA: "trim (lit ''A'') = lit ''A''"
    by (simp add: trim_def lit_def is_white_space_def)
  have t0: "trim (lit '' A2 '') = lit ''A2''"
    by (simp add: trim_def lit_def is_white_space_def)
  have ne: "lit ''A2'' \<noteq> []" "lit ''A2'' \<noteq> lit ''A''"
    by (simp_all add: lit_def)
  have h1: "trim (editingTitle ?s1) \<noteq> [] \<and> trim (editingTitle ?s1) \<noteq> title task_A"
    by (simp add: t0 ne task_A_def)
  have h0: "trim (editingTitle ?s0) = [] \<or> trim (editingTitle ?s0) = title task_A"
    by (simp add: startEdit_def task_A_def tA)
  have pending: "busyId ?s0 = Some (NumId 2)"
    by (simp add: startEdit_def)
  have req: "sent (snd (saveEdit task_A ?s1 ?ko))
       = [PUT_task (NumId 1) \<lparr>upd_title = Some (lit ''A2''), upd_completed = None\<rparr>]"
    using h1 by (simp add: saveEdit_net updateTask_sent t0 backend_def task_A_def)
  note single = C9_busyId_single_and_cleared [of "state_A\<lparr>busyId := Some (NumId 1)\<rparr>" task_A
      "task_A\<lparr>title := lit ''B''\<rparr>", THEN conjunct1, THEN mp, OF b]
  note toggle = C9_busyId_single_and_cleared [of ?p _ _ task_A ?ko,
      THEN conjunct2, THEN conjunct1]
  note delete = C9_busyId_single_and_cleared [of ?p _ _ task_A _ "backend (http 204 (Inr task_A))",
      THEN conjunct2, THEN conjunct2, THEN conjunct1]
  note save_ko = C9_busyId_single_and_cleared [of ?s1 _ _ task_A ?ko,
      THEN conjunct2, THEN conjunct2, THEN conjunct2, THEN conjunct1, THEN mp, OF h1]
  note save_ok = C9_busyId_single_and_cleared [of ?s1 _ _ task_A ?ok,
      THEN conjunct2, THEN conjunct2, THEN conjunct2, THEN conjunct1, THEN mp, OF h1]
  note cancel = C9_busyId_single_and_cleared [of ?s0 _ _ task_A "backend (http 200 (Inr task_A))",
      THEN conjunct2, THEN conjunct2, THEN conjunct2, THEN conjunct2, THEN mp, OF h0]
  have tr1: "trim (editingTitle ?s1) = lit ''A2''"
    by (simp add: t0)
  have tr0: "trim (editingTitle ?s0) = title task_A"
    by (simp add: startEdit_def task_A_def tA)
  from b single toggle delete tr1 req save_ko save_ok tr0 cancel [unfolded pending]
  show ?thesis
    by (intro conjI) simp_all
qed

text \<open>
  The claim as stated fails on a save that takes the cancel branch while another row's
  request is pending: the toggle of task 2 has set the slot, Enter is pressed on the
  unchanged draft of task 1, and when \<open>saveEdit\<close> has returned, having sent nothing, the
  slot still holds the id of task 2.
\<close>

theorem C9_busyId_counterexample:
  "trim (editingTitle (startEdit task_A (state_A\<lparr>tasks := [task_A, task_B], busyId := Some (NumId 2)\<rparr>)))
     = title task_A
   \<and> sent (snd (saveEdit task_A
                  (startEdit task_A (state_A\<lparr>tasks := [task_A, task_B], busyId := Some (NumId 2)\<rparr>))
                  (backend (http 200 (Inr task_A))))) = []
   \<and> busyId (fst (saveEdit task_A
                  (startEdit task_A (state_A\<lparr>tasks := [task_A, task_B], busyId := Some (NumId 2)\<rparr>))
                  (backend (http 200 (Inr task_A))))) = Some (NumId 2)
   \<and> busyId (fst (saveEdit task_A
                  (startEdit task_A (state_A\<lparr>tasks := [task_A, task_B], busyId := Some (NumId 2)\<rparr>))
                  (backend (http 200 (Inr task_A))))) \<noteq> None"
proof -
  let ?s = "startEdit task_A (state_A\<lparr>tasks := [task_A, task_B], busyId := Some (NumId 2)\<rparr>)"
  have tA: "trim (lit ''A'') = lit ''A''"
    by (simp add: trim_def lit_def is_white_space_def)
  have tr: "trim (editingTitle ?s) = title task_A"
    by (simp add: startEdit_def task_A_def tA)
  then have "saveEdit task_A ?s (backend (http 200 (Inr task_A)))
               = (cancelEdit ?s, backend (http 200 (Inr task_A)))"
    by (simp add: saveEdit_cancel)
  then show ?thesis
    using tr by (simp add: cancelEdit_def startEdit_def backend_def)
qed

text \<open>
  C10. \<open>handleToggle\<close> and \<open>handleDelete\<close> leave the filter mode, the input buffer
  \<open>newTitle\<close> and the inline-edit state \<open>editingId\<close>, \<open>editingTitle\<close> as they were,
  whatever the backend answers: the state afterwards is the state before with at most
  \<open>tasks\<close>, \<open>busyId\<close> and \<open>error\<close> replaced.
\<close>

theorem C10_toggle_delete_frame:
  "filter_mode (fst (handleToggle tk s net)) = filter_mode s
   \<and> newTitle (fst (handleToggle tk s net)) = newTitle s
   \<and> editingId (fst (handleToggle tk s net)) = editingId s
   \<and> editingTitle (fst (handleToggle tk s net)) = editingTitle s
   \<and> (\<exists>ts b e. fst (handleToggle tk s net) = s\<lparr>tasks := ts, busyId := b, error := e\<rparr>)
   \<and> filter_mode (fst (handleDelete tk s netD)) = filter_mode s
   \<and> newTitle (fst (handleDelete tk s netD)) = newTitle s
   \<and> editingId (fst (handleDelete tk s netD)) = editingId s
   \<and> editingTitle (fst (handleDelete tk s netD)) = editingTitle s
   \<and> (\<exists>ts b e. fst (handleDelete tk s netD) = s\<lparr>tasks := ts, busyId := b, error := e\<rparr>)"
proof -
  have toggle: "\<exists>ts b e. fst (handleToggle tk s net) = s\<lparr>tasks := ts, busyId := b, error := e\<rparr>"
  proof (cases "fst (updateTask (task_id tk)
                      \<lparr>upd_title = None, upd_completed = Some (\<not> completed tk)\<rparr> net)")
    case (Inl err)
    then have "fst (handleToggle tk s net)
        = s\<lparr>tasks := tasks s, busyId := None,
            error := Some (or_else (message err) (lit ''Failed to toggle task''))\<rparr>"
      by (simp add: handleToggle_state)
    then show ?thesis by blast
  next
    case (Inr updated)
    then have "fst (handleToggle tk s net)
        = s\<lparr>tasks := map (\<lambda>t. if task_id t = task_id tk then updated else t) (tasks s),
            busyId := None, error := None\<rparr>"
      by (simp add: handleToggle_state)
    then show ?thesis by blast
  qed
  have delete: "\<exists>ts b e. fst (handleDelete tk s netD) = s\<lparr>tasks := ts, busyId := b, error := e\<rparr>"
  proof (cases "fst (deleteTask (task_id tk) netD)")
    case (Inl err)
    then have "fst (handleDelete tk s netD)
        = s\<lparr>tasks := tasks s, busyId := None,
            error := Some (or_else (message err) (lit ''Failed to delete task''))\<rparr>"
      by (simp add: handleDelete_state)
    then show ?thesis by blast
  next
    case (Inr r)
    then have "fst (handleDelete tk s netD)
        = s\<lparr>tasks := filter (\<lambda>t. task_id t \<noteq> task_id tk) (tasks s), busyId := None, error := None\<rparr>"
      by (simp add: handleDelete_state)
    then show ?thesis by blast
  qed
  from toggle obtain ts b e where t: "fst (handleToggle tk s net) = s\<lparr>tasks := ts, busyId := b, error := e\<rparr>"
    by blast
  from delete obtain ts' b' e' where d: "fst (handleDelete tk s netD) = s\<lparr>tasks := ts', busyId := b', error := e'\<rparr>"
    by blast
  have "filter_mode (fst (handleToggle tk s net)) = filter_mode s"
    "newTitle (fst (handleToggle tk s net)) = newTitle s"
    "editingId (fst (handleToggle tk s net)) = editingId s"
    "editingTitle (fst (handleToggle tk s net)) = editingTitle s"
    unfolding t by simp_all
  moreover have "filter_mode (fst (handleDelete tk s netD)) = filter_mode s"
    "newTitle (fst (handleDelete tk s netD)) = newTitle s"
    "editingId (fst (handleDelete tk s netD)) = editingId s"
    "editingTitle (fst (handleDelete tk s netD)) = editingTitle s"
    unfolding d by simp_all
  ultimately show ?thesis
    using toggle delete by simp
qed

end
